theory Spec2Isabelle
  imports Main "HOL-Library.Sublist"
begin

section \<open>Outcomes of the Go functions\<close>

text \<open>
  The sentinel errors of \<^verbatim>\<open>main.go\<close> (lines 23-34). A Go function of the generator
  either returns its values, returns one of these errors, or panics at run time (an index
  out of range, a nil dereference); a call of \<^verbatim>\<open>showError\<close> prints the error and
  ends the process, so at the process boundary it is the outcome \<open>Err\<close> as well.
\<close>

datatype error =
    errNoPackageFound
  | errUnknownFieldType
  | errNoReturnValues
  | errNoErrorReturn
  | errFunctionNotFound string

datatype 'a res = Ok 'a | Err error | Panic

fun andThen :: "'a res \<Rightarrow> ('a \<Rightarrow> 'b res) \<Rightarrow> 'b res" where
  "andThen (Ok v) k = k v"
| "andThen (Err e) k = Err e"
| "andThen Panic k = Panic"

section \<open>The syntax trees the generator reads\<close>

text \<open>
  A \<^verbatim>\<open>token.Token\<close> is observed through its two methods only: \<^verbatim>\<open>IsOperator()\<close> and
  \<^verbatim>\<open>String()\<close>.
\<close>

datatype Token = Token (tok_IsOperator: bool) (tok_String: string)

text \<open>
  The \<^verbatim>\<open>ast.Expr\<close> node kinds that \<^verbatim>\<open>generateType\<close> tells apart; every other kind
  (array, map, selector, function, channel, struct, interface types, ...) is \<open>OtherExpr\<close>.
\<close>

datatype Expr =
    StarExpr Expr
  | Ident string
  | Ellipsis Expr
  | BinaryExpr Expr Token Expr
  | UnaryExpr Token Expr
  | IndexExpr Expr Expr
  | IndexListExpr Expr "Expr list"
  | OtherExpr

text \<open>
  The two library functions whose results the model does not compute. \<open>Sprint_node\<close> is
  what \<^verbatim>\<open>fmt\<close>'s verb \<^verbatim>\<open>%s\<close> prints for an expression node that is not an identifier
  (a reflective dump of the node: it has no \<^verbatim>\<open>String\<close> method); \<open>TrimSpace\<close> is
  \<^verbatim>\<open>strings.TrimSpace\<close>.
\<close>

record GoLib =
  Sprint_node :: "Expr \<Rightarrow> string"
  TrimSpace :: "string \<Rightarrow> string"

text \<open>
  \<^verbatim>\<open>fmt.Sprintf("%s", e)\<close> for an expression \<open>e\<close>: \<^verbatim>\<open>*ast.Ident\<close> has a \<^verbatim>\<open>String\<close>
  method, which returns the identifier's name.
\<close>

fun Sprint_expr :: "GoLib \<Rightarrow> Expr \<Rightarrow> string" where
  "Sprint_expr L (Ident name) = name"
| "Sprint_expr L e = Sprint_node L e"

text \<open>An \<^verbatim>\<open>ast.Field\<close>: the names it declares (none, one or several) and their type.\<close>

record Field =
  Names :: "string list"
  Type :: Expr

text \<open>
  An \<^verbatim>\<open>*ast.FieldList\<close> is its \<^verbatim>\<open>List\<close>, or \<open>None\<close> for the nil pointer.
  \<^verbatim>\<open>token.Pos\<close> is an integer offset; of a statement only its \<^verbatim>\<open>Pos()\<close> is read.
  Three Go fields share their name with another one and are renamed: \<open>Stmts\<close> is
  \<^verbatim>\<open>BlockStmt.List\<close>, \<open>FnType\<close> is \<^verbatim>\<open>FuncDecl.Type\<close>, \<open>PkgName\<close> is
  \<^verbatim>\<open>Package.Name\<close>. The position of a comment, \<^verbatim>\<open>Comment.Pos()\<close>, is its \<open>Slash\<close>.
\<close>

type_synonym FieldList = "Field list option"

datatype Stmt = Stmt (Pos: int)

record BlockStmt =
  Lbrace :: int
  Stmts :: "Stmt list"
  Rbrace :: int

record Comment =
  Slash :: int
  Text :: string

type_synonym CommentGroup = "Comment list"

record FuncType =
  TypeParams :: FieldList
  Params :: FieldList
  Results :: FieldList

record FuncDecl =
  Recv :: FieldList
  Name :: string
  FnType :: FuncType
  Body :: "BlockStmt option"

text \<open>
  Function declarations occur only at the top level of a file, so the pre-order traversal
  of \<^verbatim>\<open>ast.Inspect\<close> meets them in the order of the file's declarations.
\<close>

datatype Decl = GenDecl | FuncDeclD FuncDecl

record File =
  Decls :: "Decl list"
  Comments :: "CommentGroup list"

record Package =
  PkgName :: string
  Syntax :: "File list"

section \<open>String helpers of the Go library\<close>

fun Join :: "string list \<Rightarrow> string \<Rightarrow> string" where
  "Join [] sep = []"
| "Join [x] sep = x"
| "Join (x # y # ys) sep = x @ sep @ Join (y # ys) sep"

definition HasPrefix :: "string \<Rightarrow> string \<Rightarrow> bool" where
  "HasPrefix s pref = prefix pref s"

definition TrimPrefix :: "string \<Rightarrow> string \<Rightarrow> string" where
  "TrimPrefix s pref = (if HasPrefix s pref then drop (length pref) s else s)"

text \<open>The verb \<^verbatim>\<open>%d\<close> on a loop index (never negative).\<close>

definition digit :: "nat \<Rightarrow> char" where
  "digit d = char_of (48 + d)"

fun Itoa :: "nat \<Rightarrow> string" where
  "Itoa n = (if n < 10 then [digit n] else Itoa (n div 10) @ [digit (n mod 10)])"

declare Itoa.simps [simp del]

text \<open>
  \<^verbatim>\<open>strings.ToUpper\<close> on the one-byte string \<open>[c]\<close>: an ASCII lower-case letter is
  mapped to its upper-case letter, any other ASCII byte stays, and a byte that is not
  ASCII (an incomplete UTF-8 sequence when alone) becomes the replacement character
  U+FFFD, three bytes long.
\<close>

definition ToUpper1 :: "char \<Rightarrow> string" where
  "ToUpper1 c =
     (let n = (of_char c :: nat) in
      if 97 \<le> n \<and> n \<le> 122 then [char_of (n - 32)]
      else if n < 128 then [c]
      else [CHR 0xEF, CHR 0xBF, CHR 0xBD])"

section \<open>Type-expression reconstruction\<close>

text \<open>\<^verbatim>\<open>generateType\<close> (lines 136-190); \<open>generateTypes\<close> is its loop over the indices.\<close>

fun generateType :: "GoLib \<Rightarrow> Expr \<Rightarrow> string res"
  and generateTypes :: "GoLib \<Rightarrow> Expr list \<Rightarrow> string list \<Rightarrow> string list res" where
  "generateType L (StarExpr x) =
     andThen (generateType L x) (\<lambda>tx. Ok (''*'' @ tx))"
| "generateType L (Ident name) = Ok name"
| "generateType L (Ellipsis elt) = Ok (''...'' @ Sprint_expr L elt)"
| "generateType L (BinaryExpr x op y) =
     (if \<not> tok_IsOperator op then Err errUnknownFieldType
      else andThen (generateType L x) (\<lambda>tx.
           andThen (generateType L y) (\<lambda>ty.
           Ok (tx @ '' '' @ tok_String op @ '' '' @ ty))))"
| "generateType L (UnaryExpr op x) = Ok (tok_String op @ Sprint_expr L x)"
| "generateType L (IndexExpr x index) =
     andThen (generateType L x) (\<lambda>ident.
     andThen (generateType L index) (\<lambda>expr.
     Ok (ident @ ''['' @ expr @ '']'')))"
| "generateType L (IndexListExpr x indices) =
     andThen (generateType L x) (\<lambda>ident.
     andThen (generateTypes L indices []) (\<lambda>exprs.
     Ok (ident @ ''['' @ Join exprs '','' @ '']'')))"
| "generateType L OtherExpr = Err errUnknownFieldType"
| "generateTypes L [] exprs = Ok exprs"
| "generateTypes L (i # rest) exprs =
     andThen (generateType L i) (\<lambda>e. generateTypes L rest (exprs @ [e]))"

section \<open>Signature extraction\<close>

text \<open>\<^verbatim>\<open>generateReceiver\<close> (lines 192-205). Indexing an empty slice panics.\<close>

definition generateReceiver :: "GoLib \<Rightarrow> FieldList \<Rightarrow> (string \<times> string) res" where
  "generateReceiver L recv =
     (case recv of
        None \<Rightarrow> Ok ('''', '''')
      | Some lst \<Rightarrow>
          (case lst of
             [] \<Rightarrow> Panic
           | f # _ \<Rightarrow>
               (case Names f of
                  [] \<Rightarrow> Panic
                | name # _ \<Rightarrow>
                    andThen (generateType L (Type f)) (\<lambda>decl.
                    let name = (if name = ''_'' then ''t'' else name)
                    in Ok (''('' @ name @ '' '' @ decl @ '')'', name @ ''.'')))))"

text \<open>
  The loop shared, line for line, by \<^verbatim>\<open>generateParams\<close> (lines 213-220) and
  \<^verbatim>\<open>generateTypeParams\<close> (lines 252-259): of every field the first name only.
\<close>

fun fieldsLoop :: "GoLib \<Rightarrow> Field list \<Rightarrow> string list \<Rightarrow> string list
    \<Rightarrow> (string list \<times> string list) res" where
  "fieldsLoop L [] names types = Ok (names, types)"
| "fieldsLoop L (i # rest) names types =
     (case Names i of
        [] \<Rightarrow> Panic
      | n # _ \<Rightarrow>
          andThen (generateType L (Type i)) (\<lambda>t.
          fieldsLoop L rest (names @ [n]) (types @ [n @ '' '' @ t])))"

definition generateParams :: "GoLib \<Rightarrow> FieldList \<Rightarrow> (string \<times> string) res" where
  "generateParams L params =
     (case params of
        None \<Rightarrow> Ok ('''', '''')
      | Some lst \<Rightarrow>
          if lst = [] then Ok ('''', '''')
          else andThen (fieldsLoop L lst [] []) (\<lambda>(names, types).
               Ok (Join types '','', Join names '','')))"

text \<open>\<^verbatim>\<open>generateReturns\<close> (lines 224-243); \<open>returnsLoop\<close> is its loop, \<open>i\<close> the index.\<close>

fun returnsLoop :: "GoLib \<Rightarrow> Field list \<Rightarrow> nat \<Rightarrow> string list \<Rightarrow> string list
    \<Rightarrow> (string list \<times> string list) res" where
  "returnsLoop L [] i names types = Ok (names, types)"
| "returnsLoop L (ret # rest) i names types =
     andThen (generateType L (Type ret)) (\<lambda>t.
     returnsLoop L rest (Suc i) (names @ [''var'' @ Itoa i]) (types @ [t]))"

definition generateReturns :: "GoLib \<Rightarrow> FieldList \<Rightarrow> (string list \<times> string list) res" where
  "generateReturns L rets =
     (case rets of
        None \<Rightarrow> Err errNoReturnValues
      | Some lst \<Rightarrow>
          if lst = [] then Err errNoReturnValues
          else andThen (returnsLoop L lst 0 [] []) (\<lambda>(names, types).
               if types ! (length types - 1) \<noteq> ''error'' then Err errNoErrorReturn
               else Ok (types, names[length names - 1 := ''err''])))"

definition generateTypeParams :: "GoLib \<Rightarrow> FieldList \<Rightarrow> (string \<times> string) res" where
  "generateTypeParams L typeParams =
     (case typeParams of
        None \<Rightarrow> Ok ('''', '''')
      | Some lst \<Rightarrow>
          if lst = [] then Ok ('''', '''')
          else andThen (fieldsLoop L lst [] []) (\<lambda>(names, types).
               if length names > 0
               then Ok (''['' @ Join types '','' @ '']'', ''['' @ Join names '','' @ '']'')
               else Ok ('''', '''')))"

text \<open>\<^verbatim>\<open>mustName\<close> (lines 267-273); slicing the empty string with \<^verbatim>\<open>[:1]\<close> panics.\<close>

definition mustName :: "string \<Rightarrow> string res" where
  "mustName name =
     (case name of
        [] \<Rightarrow> Panic
      | c # rest \<Rightarrow>
          if ToUpper1 c = [c] then Ok (''Must'' @ name)
          else Ok (''must'' @ ToUpper1 c @ rest))"

section \<open>Wrapper synthesis\<close>

definition generateHead :: "string \<Rightarrow> string \<Rightarrow> string" where
  "generateHead pkgName buf =
     buf @ ''// Code generated - DO NOT EDIT.'' @ [CHR 0x0A]
         @ ''// This file is auto generated by gen_must and any manual changes will be lost.''
         @ [CHR 0x0A, CHR 0x0A]
         @ ''package '' @ pkgName @ [CHR 0x0A, CHR 0x0A]"

text \<open>
  \<^verbatim>\<open>generateMust\<close> (lines 284-325). Every extraction error goes to \<^verbatim>\<open>showError\<close>,
  which ends the process; otherwise the wrapper is appended to the buffer and the
  returned error is nil (\<open>None\<close>).
\<close>

definition generateMust :: "GoLib \<Rightarrow> string \<Rightarrow> FuncDecl \<Rightarrow> string
    \<Rightarrow> (error option \<times> string) res" where
  "generateMust L newName fnDecl buf =
     andThen (generateTypeParams L (TypeParams (FnType fnDecl))) (\<lambda>(typeParamsDecl, typeParamsUse).
     andThen (generateReceiver L (Recv fnDecl)) (\<lambda>(recvDecl, recvUse).
     andThen (generateParams L (Params (FnType fnDecl))) (\<lambda>(paramsDecl, paramsUse).
     andThen (generateReturns L (Results (FnType fnDecl))) (\<lambda>(retsDecl, retsVars).
     let buf1 = buf @ ''// '' @ newName @ '' has the behavior of '' @ Name fnDecl
                  @ '', except it panics any error'' @ [CHR 0x0A];
         buf2 = buf1 @ ''func '' @ recvDecl @ '' '' @ newName @ typeParamsDecl
                  @ ''('' @ paramsDecl @ '') (''
                  @ Join (take (length retsDecl - 1) retsDecl) '','' @ '') {'' @ [CHR 0x0A];
         buf3 = buf2 @ Join retsVars '','' @ '' := '' @ recvUse @ Name fnDecl @ typeParamsUse
                  @ ''('' @ paramsUse @ '')'' @ [CHR 0x0A]
                  @ ''if err!=nil{panic(err)}'' @ [CHR 0x0A];
         rv = take (length retsVars - 1) retsVars;
         buf4 = (if length rv > 0 then buf3 @ ''return '' @ Join rv '','' else buf3)
     in Ok (None, buf4 @ ''}'' @ [CHR 0x0A, CHR 0x0A])))))"

section \<open>The tag scan\<close>

text \<open>
  The search for the first comment inside the body span (lines 87-96): the inner loop
  over one group, the outer loop over the groups. A nil body is dereferenced when the
  first comment is compared, not before.
\<close>

fun commentLoop :: "BlockStmt option \<Rightarrow> Comment list \<Rightarrow> Comment option res" where
  "commentLoop body [] = Ok None"
| "commentLoop body (j # rest) =
     (case body of
        None \<Rightarrow> Panic
      | Some b \<Rightarrow>
          if Slash j \<ge> Lbrace b \<and> Slash j \<le> Rbrace b then Ok (Some j)
          else commentLoop body rest)"

fun groupLoop :: "BlockStmt option \<Rightarrow> CommentGroup list \<Rightarrow> Comment option res" where
  "groupLoop body [] = Ok None"
| "groupLoop body (i # rest) =
     andThen (commentLoop body i) (\<lambda>found.
     case found of Some j \<Rightarrow> Ok (Some j) | None \<Rightarrow> groupLoop body rest)"

text \<open>
  The inner \<^verbatim>\<open>ast.Inspect\<close> (lines 100-110) stops at the first child of the body: its
  first statement, or nil when the body has none.
\<close>

definition firstNode :: "BlockStmt option \<Rightarrow> Stmt option" where
  "firstNode body =
     (case body of None \<Rightarrow> None
      | Some b \<Rightarrow> (case Stmts b of [] \<Rightarrow> None | s # _ \<Rightarrow> Some s))"

text \<open>
  Lines 87-117: the comment that tags the declaration, \<open>None\<close> when the declaration is
  skipped. Calling \<^verbatim>\<open>Pos()\<close> on the nil first node panics.
\<close>

definition findTag :: "string \<Rightarrow> File \<Rightarrow> FuncDecl \<Rightarrow> Comment option res" where
  "findTag tagComment file fn =
     andThen (groupLoop (Body fn) (Comments file)) (\<lambda>found.
     case found of
       None \<Rightarrow> Ok None
     | Some firstComment \<Rightarrow>
         (case firstNode (Body fn) of
            None \<Rightarrow> Panic
          | Some n \<Rightarrow>
              if Pos n < Slash firstComment then Ok None
              else if \<not> HasPrefix (Text firstComment) (''//'' @ tagComment) then Ok None
              else Ok (Some firstComment)))"

text \<open>Lines 118-123: the name of the wrapper.\<close>

definition resolveName :: "GoLib \<Rightarrow> string \<Rightarrow> Comment \<Rightarrow> FuncDecl \<Rightarrow> string res" where
  "resolveName L tagComment firstComment fn =
     (let newName = TrimPrefix (Text firstComment) (''//'' @ tagComment)
      in if HasPrefix newName '':'' then Ok (TrimSpace L (drop 1 newName))
         else if newName = '''' then mustName (Name fn)
         else Ok newName)"

text \<open>
  The callback of the outer \<^verbatim>\<open>ast.Inspect\<close> on one function declaration: \<open>err\<close> and
  \<open>buf\<close> are the error variable of the file and the output buffer, both shared with
  \<open>genFn\<close>.
\<close>

definition visitFuncDecl :: "GoLib \<Rightarrow> string
    \<Rightarrow> (string \<Rightarrow> FuncDecl \<Rightarrow> string \<Rightarrow> (error option \<times> string) res)
    \<Rightarrow> File \<Rightarrow> FuncDecl \<Rightarrow> error option \<Rightarrow> string \<Rightarrow> (error option \<times> string) res" where
  "visitFuncDecl L tagComment genFn file fn err buf =
     andThen (findTag tagComment file fn) (\<lambda>tag.
     case tag of
       None \<Rightarrow> Ok (err, buf)
     | Some firstComment \<Rightarrow>
         andThen (resolveName L tagComment firstComment fn) (\<lambda>newName.
         genFn newName fn buf))"

fun inspectDecls :: "GoLib \<Rightarrow> string
    \<Rightarrow> (string \<Rightarrow> FuncDecl \<Rightarrow> string \<Rightarrow> (error option \<times> string) res)
    \<Rightarrow> File \<Rightarrow> Decl list \<Rightarrow> error option \<Rightarrow> string \<Rightarrow> (error option \<times> string) res" where
  "inspectDecls L tagComment genFn file [] err buf = Ok (err, buf)"
| "inspectDecls L tagComment genFn file (GenDecl # rest) err buf =
     inspectDecls L tagComment genFn file rest err buf"
| "inspectDecls L tagComment genFn file (FuncDeclD fn # rest) err buf =
     andThen (visitFuncDecl L tagComment genFn file fn err buf) (\<lambda>(err', buf').
     inspectDecls L tagComment genFn file rest err' buf')"

text \<open>\<^verbatim>\<open>walkCode\<close> (lines 79-134) as a loop over the files.\<close>

fun filesLoop :: "GoLib \<Rightarrow> string
    \<Rightarrow> (string \<Rightarrow> FuncDecl \<Rightarrow> string \<Rightarrow> (error option \<times> string) res)
    \<Rightarrow> File list \<Rightarrow> string \<Rightarrow> (error option \<times> string) res" where
  "filesLoop L tagComment genFn [] buf = Ok (None, buf)"
| "filesLoop L tagComment genFn (file # rest) buf =
     andThen (inspectDecls L tagComment genFn file (Decls file) None buf) (\<lambda>(err, buf').
     case err of
       Some e \<Rightarrow> Ok (Some e, buf')
     | None \<Rightarrow> filesLoop L tagComment genFn rest buf')"

definition walkCode :: "GoLib \<Rightarrow> Package \<Rightarrow> string
    \<Rightarrow> (string \<Rightarrow> FuncDecl \<Rightarrow> string \<Rightarrow> (error option \<times> string) res)
    \<Rightarrow> string \<Rightarrow> (error option \<times> string) res" where
  "walkCode L pkg tagComment genFn buf = filesLoop L tagComment genFn (Syntax pkg) buf"

text \<open>
  \<^verbatim>\<open>main\<close> from the loaded package to the buffer handed to the formatter (lines
  336-340).
\<close>

definition generate :: "GoLib \<Rightarrow> Package \<Rightarrow> string res" where
  "generate L pkg =
     andThen (walkCode L pkg ''@gen_must'' (generateMust L) (generateHead (PkgName pkg) ''''))
       (\<lambda>(err, buf). case err of Some e \<Rightarrow> Err e | None \<Rightarrow> Ok buf)"

section \<open>Declarations used as examples\<close>

text \<open>
  An instance of the library for the examples: \<^verbatim>\<open>strings.TrimSpace\<close> as it acts on
  text whose white space is ASCII, and a fixed text for the reflective dump of a node.
\<close>

definition asciiSpace :: "char \<Rightarrow> bool" where
  "asciiSpace c \<longleftrightarrow> c \<in> set [CHR 0x09, CHR 0x0A, CHR 0x0B, CHR 0x0C, CHR 0x0D, CHR '' '']"

definition TrimSpace_ascii :: "string \<Rightarrow> string" where
  "TrimSpace_ascii s = rev (dropWhile asciiSpace (rev (dropWhile asciiSpace s)))"

definition exampleLib :: GoLib where
  "exampleLib = \<lparr>Sprint_node = (\<lambda>e. ''&{}''), TrimSpace = TrimSpace_ascii\<rparr>"



text \<open>
  \<^verbatim>\<open>func Divide(a int, b int) (int, error)\<close> and \<^verbatim>\<open>func Divide(a, b int) (int, error)\<close>
  as the parser delivers them: the second declares both names in one field. The body
  opens at offset 35, its first statement starts at 51, it closes at 70.
\<close>

definition intErrorResults :: FieldList where
  "intErrorResults =
     Some [\<lparr>Names = [], Type = Ident ''int''\<rparr>, \<lparr>Names = [], Type = Ident ''error''\<rparr>]"

definition divideBody :: BlockStmt where
  "divideBody = \<lparr>Lbrace = 35, Stmts = [Stmt 51], Rbrace = 70\<rparr>"

definition DivideSeparate :: FuncDecl where
  "DivideSeparate =
     \<lparr>Recv = None, Name = ''Divide'',
      FnType = \<lparr>TypeParams = None,
                Params = Some [\<lparr>Names = [''a''], Type = Ident ''int''\<rparr>,
                               \<lparr>Names = [''b''], Type = Ident ''int''\<rparr>],
                Results = intErrorResults\<rparr>,
      Body = Some divideBody\<rparr>"

definition DivideGrouped :: FuncDecl where
  "DivideGrouped =
     \<lparr>Recv = None, Name = ''Divide'',
      FnType = \<lparr>TypeParams = None,
                Params = Some [\<lparr>Names = [''a'', ''b''], Type = Ident ''int''\<rparr>],
                Results = intErrorResults\<rparr>,
      Body = Some divideBody\<rparr>"

text \<open>
  Comments: the bare marker and the renaming marker before the first statement, and the
  bare marker after it.
\<close>

definition bareComment :: Comment where
  "bareComment = \<lparr>Slash = 37, Text = ''//@gen_must''\<rparr>"

definition renameComment :: Comment where
  "renameComment = \<lparr>Slash = 37, Text = ''//@gen_must: SafeDivide''\<rparr>"


definition fileOf :: "FuncDecl \<Rightarrow> Comment \<Rightarrow> File" where
  "fileOf fn c = \<lparr>Decls = [GenDecl, FuncDeclD fn], Comments = [[c]]\<rparr>"

text \<open>
  A declaration without a body (a function implemented outside Go), and a declaration
  whose body holds a comment and no statement.
\<close>

definition AddStub :: FuncDecl where
  "AddStub =
     \<lparr>Recv = None, Name = ''Add'',
      FnType = \<lparr>TypeParams = None,
                Params = Some [\<lparr>Names = [''a''], Type = Ident ''int''\<rparr>,
                               \<lparr>Names = [''b''], Type = Ident ''int''\<rparr>],
                Results = intErrorResults\<rparr>,
      Body = None\<rparr>"

definition Noop :: FuncDecl where
  "Noop =
     \<lparr>Recv = None, Name = ''Noop'',
      FnType = \<lparr>TypeParams = None, Params = Some [],
                Results = Some [\<lparr>Names = [], Type = Ident ''error''\<rparr>]\<rparr>,
      Body = Some \<lparr>Lbrace = 35, Stmts = [], Rbrace = 70\<rparr>\<rparr>"

text \<open>
  A file with a comment before its only declaration, \<^verbatim>\<open>func Count() int\<close>, a result list
  \<^verbatim>\<open>([]byte, int)\<close>, \<^verbatim>\<open>func Split(s string) (a, b int, err error)\<close> whose first result
  field declares two names, and a method \<^verbatim>\<open>func (s *Store) Double(x int) (int, error)\<close>
  whose body spans the offsets 100 to 140.
\<close>

definition packageDoc :: Comment where
  "packageDoc = \<lparr>Slash = 1, Text = ''// Package calc adds numbers.''\<rparr>"

definition Count :: FuncDecl where
  "Count =
     \<lparr>Recv = None, Name = ''Count'',
      FnType = \<lparr>TypeParams = None, Params = Some [],
                Results = Some [\<lparr>Names = [], Type = Ident ''int''\<rparr>]\<rparr>,
      Body = Some divideBody\<rparr>"

definition bytesIntResults :: FieldList where
  "bytesIntResults =
     Some [\<lparr>Names = [], Type = OtherExpr\<rparr>, \<lparr>Names = [], Type = Ident ''int''\<rparr>]"

definition SplitNamed :: FuncDecl where
  "SplitNamed =
     \<lparr>Recv = None, Name = ''Split'',
      FnType = \<lparr>TypeParams = None,
                Params = Some [\<lparr>Names = [''s''], Type = Ident ''string''\<rparr>],
                Results = Some [\<lparr>Names = [''a'', ''b''], Type = Ident ''int''\<rparr>,
                                \<lparr>Names = [''err''], Type = Ident ''error''\<rparr>]\<rparr>,
      Body = Some divideBody\<rparr>"




definition countPackage :: Package where
  "countPackage = \<lparr>PkgName = ''calc'', Syntax = [fileOf Count bareComment]\<rparr>"

section \<open>Notions of the specification\<close>

text \<open>The body span of a function, and the first comment of the file that lies in it.\<close>

definition inSpan :: "BlockStmt \<Rightarrow> Comment \<Rightarrow> bool" where
  "inSpan b j \<longleftrightarrow> Lbrace b \<le> Slash j \<and> Slash j \<le> Rbrace b"






text \<open>
  The number of values a field list declares, as \<^verbatim>\<open>FieldList.NumFields\<close> of
  \<^verbatim>\<open>go/ast\<close> counts them: a field without names counts once, a field with names once
  for each name.
\<close>

definition NumFields :: "FieldList \<Rightarrow> nat" where
  "NumFields f =
     (case f of
        None \<Rightarrow> 0
      | Some lst \<Rightarrow>
          sum_list (map (\<lambda>g. if length (Names g) = 0 then 1 else length (Names g)) lst))"

text \<open>
  The output in the specification's words: every declaration has a text of its own (empty
  when the declaration is skipped), and the texts are appended to the buffer file by file
  and, within a file, declaration by declaration; the first failure ends the run.
\<close>

definition declText :: "GoLib \<Rightarrow> string \<Rightarrow> File \<Rightarrow> Decl \<Rightarrow> string res" where
  "declText L tag file d =
     (case d of
        GenDecl \<Rightarrow> Ok ''''
      | FuncDeclD fn \<Rightarrow>
          andThen (visitFuncDecl L tag (generateMust L) file fn None '''') (\<lambda>(e, t). Ok t))"

definition fileTexts :: "GoLib \<Rightarrow> string \<Rightarrow> File \<Rightarrow> string res list" where
  "fileTexts L tag file = map (declText L tag file) (Decls file)"

definition packageTexts :: "GoLib \<Rightarrow> string \<Rightarrow> Package \<Rightarrow> string res list" where
  "packageTexts L tag pkg = concat (map (fileTexts L tag) (Syntax pkg))"

fun appendAll :: "string res list \<Rightarrow> string \<Rightarrow> string res" where
  "appendAll [] buf = Ok buf"
| "appendAll (r # rs) buf = andThen r (\<lambda>t. appendAll rs (buf @ t))"

section \<open>Basic facts\<close>

lemma andThen_Ok_iff:
  "andThen r k = Ok v \<longleftrightarrow> (\<exists>u. r = Ok u \<and> k u = Ok v)"
  by (cases r) simp_all

lemma andThen_Err_iff:
  "andThen r k = Err e \<longleftrightarrow> r = Err e \<or> (\<exists>u. r = Ok u \<and> k u = Err e)"
  by (cases r) simp_all

lemma andThen_Panic_iff:
  "andThen r k = Panic \<longleftrightarrow> r = Panic \<or> (\<exists>u. r = Ok u \<and> k u = Panic)"
  by (cases r) simp_all

text \<open>Type reconstruction never panics, and its only error is \<open>errUnknownFieldType\<close>.\<close>

lemma generateType_no_panic:
  "generateType L x \<noteq> Panic" "generateTypes L xs acc \<noteq> Panic"
  by (induction L x and L xs acc rule: generateType_generateTypes.induct)
     (auto simp: andThen_Panic_iff)

lemma generateType_Err:
  "generateType L x = Err e \<Longrightarrow> e = errUnknownFieldType"
  "generateTypes L xs acc = Err e \<Longrightarrow> e = errUnknownFieldType"
  by (induction L x and L xs acc arbitrary: e and e rule: generateType_generateTypes.induct)
     (auto simp: andThen_Err_iff split: if_splits)


section \<open>The unary rule of the type reconstructor\<close>



section \<open>The receiver\<close>



section \<open>The name of the wrapper\<close>







lemma rename_examples:
  "findTag ''@gen_must'' (fileOf DivideSeparate renameComment) DivideSeparate
     = Ok (Some renameComment)"
  "TrimSpace exampleLib '' SafeDivide'' = ''SafeDivide''"
  "generateMust exampleLib ''SafeDivide'' DivideSeparate '''' = Ok (None,
     ''// SafeDivide has the behavior of Divide, except it panics any error\<newline>func  SafeDivide(a int,b int) (int) {\<newline>var0,err := Divide(a,b)\<newline>if err!=nil{panic(err)}\<newline>return var0}\<newline>\<newline>'')"
  by code_simp+

text \<open>
  Claim C6. When the text after the marker prefix begins with a colon, the name of the
  wrapper is the rest after the colon with the surrounding white space trimmed; the name
  of the original function plays no part, and the synthesizer is called with that name.
\<close>

theorem resolveName_explicit:
  "Text c = ''//'' @ tag @ '':'' @ r \<Longrightarrow>
     resolveName L tag c fn = Ok (TrimSpace L r)
     \<and> (findTag tag file fn = Ok (Some c) \<longrightarrow>
          visitFuncDecl L tag genFn file fn err buf = genFn (TrimSpace L r) fn buf)"
  by (simp add: resolveName_def TrimPrefix_def HasPrefix_def visitFuncDecl_def)

theorem resolveName_explicit_witness:
  "resolveName exampleLib ''@gen_must'' renameComment DivideSeparate = Ok ''SafeDivide''
   \<and> visitFuncDecl exampleLib ''@gen_must'' (generateMust exampleLib)
        (fileOf DivideSeparate renameComment) DivideSeparate None ''''
     = Ok (None,
       ''// SafeDivide has the behavior of Divide, except it panics any error\<newline>func  SafeDivide(a int,b int) (int) {\<newline>var0,err := Divide(a,b)\<newline>if err!=nil{panic(err)}\<newline>return var0}\<newline>\<newline>'')"
proof -
  have t: "Text renameComment = ''//'' @ ''@gen_must'' @ '':'' @ '' SafeDivide''"
    by (simp add: renameComment_def)
  show ?thesis
    using resolveName_explicit [OF t, of exampleLib DivideSeparate
        "fileOf DivideSeparate renameComment" "generateMust exampleLib" None "''''"]
      rename_examples
    by simp
qed

section \<open>The position of the marker\<close>

lemma find_append_opt:
  "find P (xs @ ys) = (case find P xs of None \<Rightarrow> find P ys | Some x \<Rightarrow> Some x)"
  by (induction xs) auto

lemma find_ex_iff: "(\<exists>x\<in>set xs. P x) \<longleftrightarrow> find P xs \<noteq> None"
  by (induction xs) auto

lemma commentLoop_Some: "commentLoop (Some b) js = Ok (find (inSpan b) js)"
  by (induction js) (auto simp: inSpan_def)

lemma groupLoop_Some: "groupLoop (Some b) gs = Ok (find (inSpan b) (concat gs))"
  by (induction gs) (auto simp: commentLoop_Some find_append_opt split: option.splits)

lemma commentLoop_None: "commentLoop None js = (if js = [] then Ok None else Panic)"
  by (cases js) auto

lemma groupLoop_None: "groupLoop None gs = (if concat gs = [] then Ok None else Panic)"
  by (induction gs) (auto simp: commentLoop_None)






section \<open>Where the scan panics\<close>

text \<open>
  Claim C10, as the code has it. The scan of a declaration panics in exactly two cases:
  the declaration has no body and the file has at least one comment (the nil body is
  dereferenced when the first comment is compared with it), or the body has no syntax
  node and some comment of the file lies within the body span (\<^verbatim>\<open>Pos\<close> is called on the
  nil first node).
\<close>

theorem findTag_Panic_iff:
  "findTag tag file fn = Panic \<longleftrightarrow>
     (Body fn = None \<and> concat (Comments file) \<noteq> [])
     \<or> (\<exists>b. Body fn = Some b \<and> Stmts b = []
           \<and> (\<exists>j \<in> set (concat (Comments file)). inSpan b j))"
proof (cases "Body fn")
  case None
  then show ?thesis
    by (auto simp: findTag_def groupLoop_None firstNode_def)
next
  case (Some b)
  show ?thesis
  proof (cases "find (inSpan b) (concat (Comments file))")
    case None
    have "\<not> (\<exists>j \<in> set (concat (Comments file)). inSpan b j)"
      unfolding find_ex_iff using None by simp
    with Some None show ?thesis
      by (simp add: findTag_def groupLoop_Some)
  next
    case (Some c)
    have "\<exists>j \<in> set (concat (Comments file)). inSpan b j"
      unfolding find_ex_iff using Some by simp
    with \<open>Body fn = Some b\<close> Some show ?thesis
      by (simp add: findTag_def groupLoop_Some firstNode_def split: list.splits)
  qed
qed

lemma panic_examples:
  "Body AddStub = None"
  "concat (Comments (fileOf AddStub packageDoc)) = [packageDoc]"
  "Body Noop = Some \<lparr>Lbrace = 35, Stmts = [], Rbrace = 70\<rparr>"
  "concat (Comments (fileOf Noop bareComment)) = [bareComment]"
  "inSpan \<lparr>Lbrace = 35, Stmts = [], Rbrace = 70\<rparr> bareComment"
  by code_simp+

theorem findTag_Panic_iff_witness:
  "findTag ''@gen_must'' (fileOf AddStub packageDoc) AddStub = Panic
   \<and> findTag ''@gen_must'' (fileOf Noop bareComment) Noop = Panic"
  using findTag_Panic_iff [of "''@gen_must''" "fileOf AddStub packageDoc" AddStub]
        findTag_Panic_iff [of "''@gen_must''" "fileOf Noop bareComment" Noop]
        panic_examples
  by simp

text \<open>
  A declaration without a body is scanned without a panic when the file has no comment:
  it is skipped, and the run ends with the header alone.
\<close>

theorem bodyless_scan_counterexample:
  "Body AddStub = None
   \<and> findTag ''@gen_must'' \<lparr>Decls = [FuncDeclD AddStub], Comments = []\<rparr> AddStub = Ok None
   \<and> generate exampleLib
        \<lparr>PkgName = ''calc'', Syntax = [\<lparr>Decls = [FuncDeclD AddStub], Comments = []\<rparr>]\<rparr>
      = Ok (generateHead ''calc'' '''')"
  by code_simp

section \<open>The order of the output\<close>

lemma generateMust_buf:
  "generateMust L n fn buf =
     andThen (generateMust L n fn '''') (\<lambda>(e, t). Ok (None, buf @ t))"
  by (cases "generateTypeParams L (TypeParams (FnType fn))";
      cases "generateReceiver L (Recv fn)";
      cases "generateParams L (Params (FnType fn))";
      cases "generateReturns L (Results (FnType fn))")
     (auto simp: generateMust_def Let_def split: prod.splits)

lemma visit_buf:
  "visitFuncDecl L tag (generateMust L) file fn None buf =
     andThen (visitFuncDecl L tag (generateMust L) file fn None '''')
       (\<lambda>(e, t). Ok (None, buf @ t))"
proof (cases "findTag tag file fn")
  case (Ok found)
  show ?thesis
  proof (cases found)
    case None
    with Ok show ?thesis by (simp add: visitFuncDecl_def)
  next
    case (Some c)
    show ?thesis
    proof (cases "resolveName L tag c fn")
      case (Ok n)
      with \<open>findTag tag file fn = Ok found\<close> Some show ?thesis
        using generateMust_buf [of L n fn buf]
        by (simp add: visitFuncDecl_def)
    qed (use \<open>findTag tag file fn = Ok found\<close> Some in \<open>simp_all add: visitFuncDecl_def\<close>)
  qed
qed (simp_all add: visitFuncDecl_def)

lemma inspectDecls_texts:
  "inspectDecls L tag (generateMust L) file ds None buf =
     andThen (appendAll (map (declText L tag file) ds) buf) (\<lambda>out. Ok (None, out))"
proof (induction ds arbitrary: buf)
  case Nil
  show ?case by simp
next
  case (Cons d ds)
  show ?case
  proof (cases d)
    case GenDecl
    with Cons show ?thesis by (simp add: declText_def)
  next
    case (FuncDeclD fn)
    show ?thesis
    proof (cases "visitFuncDecl L tag (generateMust L) file fn None ''''")
      case (Ok r)
      obtain e t where r: "r = (e, t)" by (cases r)
      have "visitFuncDecl L tag (generateMust L) file fn None buf = Ok (None, buf @ t)"
        using visit_buf [of L tag "file" fn buf] Ok r by simp
      with Ok r FuncDeclD Cons show ?thesis by (simp add: declText_def)
    next
      case (Err e)
      have "visitFuncDecl L tag (generateMust L) file fn None buf = Err e"
        using visit_buf [of L tag "file" fn buf] Err by simp
      with Err FuncDeclD show ?thesis by (simp add: declText_def)
    next
      case Panic
      have "visitFuncDecl L tag (generateMust L) file fn None buf = Panic"
        using visit_buf [of L tag "file" fn buf] Panic by simp
      with Panic FuncDeclD show ?thesis by (simp add: declText_def)
    qed
  qed
qed

lemma appendAll_append:
  "appendAll (xs @ ys) buf = andThen (appendAll xs buf) (appendAll ys)"
proof (induction xs arbitrary: buf)
  case Nil
  show ?case by simp
next
  case (Cons x xs)
  then show ?case by (cases x) simp_all
qed

lemma filesLoop_texts:
  "filesLoop L tag (generateMust L) files buf =
     andThen (appendAll (concat (map (fileTexts L tag) files)) buf) (\<lambda>out. Ok (None, out))"
proof (induction files arbitrary: buf)
  case Nil
  show ?case by simp
next
  case (Cons f fs)
  show ?case
  proof (cases "appendAll (fileTexts L tag f) buf")
    case (Ok out)
    with Cons show ?thesis
      by (simp add: inspectDecls_texts appendAll_append fileTexts_def)
  qed (simp_all add: inspectDecls_texts appendAll_append fileTexts_def)
qed

lemma appendAll_Ok_iff:
  "appendAll rs buf = Ok out \<longleftrightarrow> (\<exists>ts. rs = map Ok ts \<and> out = buf @ concat ts)"
proof (induction rs arbitrary: buf)
  case Nil
  show ?case by auto
next
  case (Cons r rs)
  show ?case
  proof (cases r)
    case (Ok t)
    have "(\<exists>ts. r # rs = map Ok ts \<and> out = buf @ concat ts)
        \<longleftrightarrow> (\<exists>zs. rs = map Ok zs \<and> out = (buf @ t) @ concat zs)"
      using Ok by (auto simp: Cons_eq_map_conv)
    with Ok Cons show ?thesis by simp
  qed auto
qed

lemma walkCode_texts:
  "walkCode L pkg tag (generateMust L) buf =
     andThen (appendAll (packageTexts L tag pkg) buf) (\<lambda>out. Ok (None, out))"
  by (simp add: walkCode_def filesLoop_texts packageTexts_def)




section \<open>The results extractor\<close>

lemma returnsLoop_Ok:
  "list_all2 (\<lambda>r t. generateType L (Type r) = Ok t) rs ts \<Longrightarrow>
     returnsLoop L rs i names types =
       Ok (names @ map (\<lambda>k. ''var'' @ Itoa k) [i..<i + length rs], types @ ts)"
proof (induction rs arbitrary: ts i names types)
  case Nil
  then show ?case by simp
next
  case (Cons r rs)
  from Cons.prems obtain t ts' where ts: "ts = t # ts'" "generateType L (Type r) = Ok t"
    "list_all2 (\<lambda>r t. generateType L (Type r) = Ok t) rs ts'"
    by (auto simp: list_all2_Cons1)
  have "[i..<i + length (r # rs)] = i # [Suc i..<Suc i + length rs]"
    by (simp add: upt_rec)
  with ts Cons.IH [OF ts(3), of "Suc i" "names @ [''var'' @ Itoa i]" "types @ [t]"]
  show ?case by simp
qed

lemma returnsLoop_Ok_D:
  "returnsLoop L rs i names types = Ok (ns, ts) \<Longrightarrow>
     \<exists>us. list_all2 (\<lambda>r t. generateType L (Type r) = Ok t) rs us \<and> ts = types @ us"
proof (induction rs arbitrary: i names types)
  case Nil
  then show ?case by simp
next
  case (Cons r rs)
  from Cons.prems obtain t where t: "generateType L (Type r) = Ok t"
    "returnsLoop L rs (Suc i) (names @ [''var'' @ Itoa i]) (types @ [t]) = Ok (ns, ts)"
    by (auto simp: andThen_Ok_iff)
  from Cons.IH [OF t(2)] obtain us where
    "list_all2 (\<lambda>r t. generateType L (Type r) = Ok t) rs us" "ts = (types @ [t]) @ us"
    by auto
  with t(1) have "list_all2 (\<lambda>r t. generateType L (Type r) = Ok t) (r # rs) (t # us)
      \<and> ts = types @ (t # us)"
    by simp
  then show ?case by (intro exI [of _ "t # us"])
qed

lemma returnsLoop_Err:
  "returnsLoop L rs i names types = Err e \<Longrightarrow>
     e = errUnknownFieldType \<and> (\<exists>r \<in> set rs. generateType L (Type r) = Err errUnknownFieldType)"
proof (induction rs arbitrary: i names types)
  case Nil
  then show ?case by simp
next
  case (Cons r rs)
  show ?case
  proof (cases "generateType L (Type r)")
    case (Ok t)
    with Cons show ?thesis by auto
  next
    case (Err e')
    with Cons.prems generateType_Err(1) [OF Err] show ?thesis by auto
  next
    case Panic
    then show ?thesis using generateType_no_panic(1) by auto
  qed
qed

lemma returnsLoop_member_Err:
  "r \<in> set rs \<Longrightarrow> generateType L (Type r) = Err e \<Longrightarrow>
     returnsLoop L rs i names types = Err errUnknownFieldType"
proof (induction rs arbitrary: i names types)
  case Nil
  then show ?case by simp
next
  case (Cons x xs)
  show ?case
  proof (cases "generateType L (Type x)")
    case (Ok t)
    with Cons show ?thesis by auto
  next
    case (Err e')
    then show ?thesis using generateType_Err(1) by auto
  next
    case Panic
    then show ?thesis using generateType_no_panic(1) by auto
  qed
qed

lemma returnsLoop_no_panic: "returnsLoop L rs i names types \<noteq> Panic"
  by (induction rs arbitrary: i names types)
     (auto simp: andThen_Panic_iff generateType_no_panic)



lemma generateReturns_NoReturnValues_iff:
  "generateReturns L rets = Err errNoReturnValues \<longleftrightarrow> rets = None \<or> rets = Some []"
proof (cases rets)
  case None
  then show ?thesis by (simp add: generateReturns_def)
next
  case (Some rs)
  show ?thesis
  proof (cases "returnsLoop L rs 0 [] []")
    case (Ok p)
    with Some show ?thesis
      by (cases p) (simp add: generateReturns_def)
  next
    case (Err e)
    with Some returnsLoop_Err [OF Err] show ?thesis
      by (simp add: generateReturns_def)
  next
    case Panic
    then show ?thesis using returnsLoop_no_panic by auto
  qed
qed



lemma generateReturns_NoErrorReturn_iff:
  "generateReturns L rets = Err errNoErrorReturn \<longleftrightarrow>
     (\<exists>rs ts. rets = Some rs \<and> rs \<noteq> []
        \<and> list_all2 (\<lambda>r t. generateType L (Type r) = Ok t) rs ts \<and> last ts \<noteq> ''error'')"
proof (cases rets)
  case None
  then show ?thesis by (simp add: generateReturns_def)
next
  case (Some rs)
  show ?thesis
  proof (cases "rs = []")
    case True
    with Some show ?thesis by (simp add: generateReturns_def)
  next
    case False
    show ?thesis
    proof (cases "returnsLoop L rs 0 [] []")
      case (Ok p)
      obtain ns ts where p: "p = (ns, ts)" by (cases p)
      from returnsLoop_Ok_D [of L rs 0 "[]" "[]" ns ts] Ok p
      have all: "list_all2 (\<lambda>r t. generateType L (Type r) = Ok t) rs ts" by simp
      then have len: "length ts = length rs" by (simp add: list_all2_lengthD)
      with False have "ts \<noteq> []" by auto
      then have lst: "ts ! (length ts - 1) = last ts" by (simp add: last_conv_nth)
      have uniq: "ts' = ts" if "list_all2 (\<lambda>r t. generateType L (Type r) = Ok t) rs ts'" for ts'
        using returnsLoop_Ok [OF that, of 0 "[]" "[]"] Ok p by simp
      have lhs: "generateReturns L rets = Err errNoErrorReturn \<longleftrightarrow> last ts \<noteq> ''error''"
        using Some False Ok p lst by (simp add: generateReturns_def)
      have rhs: "(\<exists>rs' ts'. rets = Some rs' \<and> rs' \<noteq> []
          \<and> list_all2 (\<lambda>r t. generateType L (Type r) = Ok t) rs' ts' \<and> last ts' \<noteq> ''error'')
        \<longleftrightarrow> last ts \<noteq> ''error''"
      proof
        assume "\<exists>rs' ts'. rets = Some rs' \<and> rs' \<noteq> []
          \<and> list_all2 (\<lambda>r t. generateType L (Type r) = Ok t) rs' ts' \<and> last ts' \<noteq> ''error''"
        then obtain rs' ts' where h: "rets = Some rs'"
          "list_all2 (\<lambda>r t. generateType L (Type r) = Ok t) rs' ts'" "last ts' \<noteq> ''error''"
          by auto
        from h(1) Some have "rs' = rs" by simp
        with h(2) uniq have "ts' = ts" by simp
        with h(3) show "last ts \<noteq> ''error''" by simp
      next
        assume "last ts \<noteq> ''error''"
        with Some False all have "rets = Some rs \<and> rs \<noteq> []
          \<and> list_all2 (\<lambda>r t. generateType L (Type r) = Ok t) rs ts \<and> last ts \<noteq> ''error''"
          by simp
        then show "\<exists>rs' ts'. rets = Some rs' \<and> rs' \<noteq> []
          \<and> list_all2 (\<lambda>r t. generateType L (Type r) = Ok t) rs' ts' \<and> last ts' \<noteq> ''error''"
          by (intro exI [of _ rs] exI [of _ ts])
      qed
      from lhs rhs show ?thesis by simp
    next
      case (Err e)
      have "\<not> list_all2 (\<lambda>r t. generateType L (Type r) = Ok t) rs ts" for ts
        using returnsLoop_Ok [of L rs ts 0 "[]" "[]"] Err by auto
      with Some False Err returnsLoop_Err [OF Err] show ?thesis
        by (simp add: generateReturns_def)
    next
      case Panic
      then show ?thesis using returnsLoop_no_panic by auto
    qed
  qed
qed



lemma generateReturns_UnknownFieldType_iff:
  "generateReturns L rets = Err errUnknownFieldType \<longleftrightarrow>
     (\<exists>rs r. rets = Some rs \<and> r \<in> set rs \<and> generateType L (Type r) = Err errUnknownFieldType)"
proof (cases rets)
  case None
  then show ?thesis by (simp add: generateReturns_def)
next
  case (Some rs)
  show ?thesis
  proof (cases "rs = []")
    case True
    with Some show ?thesis by (simp add: generateReturns_def)
  next
    case False
    show ?thesis
    proof (cases "returnsLoop L rs 0 [] []")
      case (Ok p)
      have "generateType L (Type r) \<noteq> Err errUnknownFieldType" if "r \<in> set rs" for r
        using returnsLoop_member_Err [OF that, of L errUnknownFieldType 0 "[]" "[]"] Ok by auto
      with Some False Ok show ?thesis
        by (cases p) (auto simp: generateReturns_def)
    next
      case (Err e)
      with Some False returnsLoop_Err [OF Err] show ?thesis
        by (auto simp: generateReturns_def)
    next
      case Panic
      then show ?thesis using returnsLoop_no_panic by auto
    qed
  qed
qed



lemma generateMust_returns_fatal:
  "generateReturns L (Results (FnType fn)) = Err e \<Longrightarrow> generateMust L n fn buf \<noteq> Ok r"
  by (cases "generateTypeParams L (TypeParams (FnType fn))";
      cases "generateReceiver L (Recv fn)";
      cases "generateParams L (Params (FnType fn))")
     (auto simp: generateMust_def split: prod.splits)



lemma generateMust_returns_Err:
  "generateReturns L (Results (FnType fn)) = Err e \<Longrightarrow>
   generateTypeParams L (TypeParams (FnType fn)) = Ok tp \<Longrightarrow>
   generateReceiver L (Recv fn) = Ok rc \<Longrightarrow>
   generateParams L (Params (FnType fn)) = Ok ps \<Longrightarrow>
   generateMust L n fn buf = Err e"
  by (auto simp: generateMust_def split: prod.splits)

lemma returns_examples:
  "generateReturns exampleLib None = Err errNoReturnValues"
  "generateReturns exampleLib (Some []) = Err errNoReturnValues"
  "generateReturns exampleLib (Results (FnType Count)) = Err errNoErrorReturn"
  "generateReturns exampleLib bytesIntResults = Err errUnknownFieldType"
  "generateTypeParams exampleLib (TypeParams (FnType Count)) = Ok ('''', '''')"
  "generateReceiver exampleLib (Recv Count) = Ok ('''', '''')"
  "generateParams exampleLib (Params (FnType Count)) = Ok ('''', '''')"
  "findTag ''@gen_must'' (fileOf Count bareComment) Count = Ok (Some bareComment)"
  "resolveName exampleLib ''@gen_must'' bareComment Count = Ok ''MustCount''"
  "fileOf Count bareComment \<in> set (Syntax countPackage)"
  "FuncDeclD Count \<in> set (Decls (fileOf Count bareComment))"
  "generate exampleLib countPackage = Err errNoErrorReturn"
  by code_simp+

lemma walkCode_Ok_declText:
  assumes "walkCode L pkg tag (generateMust L) buf = Ok r"
    and "file \<in> set (Syntax pkg)" and "d \<in> set (Decls file)"
  shows "\<exists>t. declText L tag file d = Ok t"
proof -
  from assms(1) obtain out where "appendAll (packageTexts L tag pkg) buf = Ok out"
    unfolding walkCode_texts by (auto simp: andThen_Ok_iff)
  then obtain ts where ts: "packageTexts L tag pkg = map Ok ts"
    by (auto simp: appendAll_Ok_iff)
  from assms(2,3) have "declText L tag file d \<in> set (packageTexts L tag pkg)"
    by (auto simp: packageTexts_def fileTexts_def)
  with ts show ?thesis by auto
qed

text \<open>
  Claim C2, as the code has it. The results extractor fails with \<open>errNoReturnValues\<close>
  exactly when the result list is absent or empty. It fails with \<open>errNoErrorReturn\<close>
  exactly when the list is not empty, the type of every result is reconstructed, and the
  text of the last one is not \<^verbatim>\<open>error\<close>; when the type of some result cannot be
  reconstructed it fails with \<open>errUnknownFieldType\<close> instead, whatever the last result is.
  Whichever the failure, the synthesizer returns no wrapper: once the tag has matched, the
  visit of the declaration and the whole run end without an output buffer, with the
  extractor's own error when the earlier extractions went through.
\<close>

theorem generateReturns_failures:
  "(generateReturns L rets = Err errNoReturnValues \<longleftrightarrow> rets = None \<or> rets = Some [])
   \<and> (generateReturns L rets = Err errNoErrorReturn \<longleftrightarrow>
        (\<exists>rs ts. rets = Some rs \<and> rs \<noteq> []
           \<and> list_all2 (\<lambda>r t. generateType L (Type r) = Ok t) rs ts \<and> last ts \<noteq> ''error''))
   \<and> (generateReturns L rets = Err errUnknownFieldType \<longleftrightarrow>
        (\<exists>rs r. rets = Some rs \<and> r \<in> set rs
           \<and> generateType L (Type r) = Err errUnknownFieldType))
   \<and> (generateReturns L (Results (FnType fn)) = Err e \<longrightarrow>
        (\<forall>r. generateMust L n fn buf \<noteq> Ok r)
        \<and> ((\<exists>tp. generateTypeParams L (TypeParams (FnType fn)) = Ok tp)
            \<and> (\<exists>rc. generateReceiver L (Recv fn) = Ok rc)
            \<and> (\<exists>ps. generateParams L (Params (FnType fn)) = Ok ps)
            \<longrightarrow> generateMust L n fn buf = Err e)
        \<and> (findTag tag file fn = Ok (Some c) \<and> resolveName L tag c fn = Ok n \<longrightarrow>
              (\<forall>r err. visitFuncDecl L tag (generateMust L) file fn err buf \<noteq> Ok r)
              \<and> (file \<in> set (Syntax pkg) \<and> FuncDeclD fn \<in> set (Decls file) \<longrightarrow>
                    (\<forall>r. walkCode L pkg tag (generateMust L) buf \<noteq> Ok r))))"
proof -
  have fatal: "(\<forall>r. generateMust L n fn buf \<noteq> Ok r)
        \<and> ((\<exists>tp. generateTypeParams L (TypeParams (FnType fn)) = Ok tp)
            \<and> (\<exists>rc. generateReceiver L (Recv fn) = Ok rc)
            \<and> (\<exists>ps. generateParams L (Params (FnType fn)) = Ok ps)
            \<longrightarrow> generateMust L n fn buf = Err e)
        \<and> (findTag tag file fn = Ok (Some c) \<and> resolveName L tag c fn = Ok n \<longrightarrow>
              (\<forall>r err. visitFuncDecl L tag (generateMust L) file fn err buf \<noteq> Ok r)
              \<and> (file \<in> set (Syntax pkg) \<and> FuncDeclD fn \<in> set (Decls file) \<longrightarrow>
                    (\<forall>r. walkCode L pkg tag (generateMust L) buf \<noteq> Ok r)))"
    if e: "generateReturns L (Results (FnType fn)) = Err e"
  proof -
    have must: "generateMust L n fn b \<noteq> Ok r" for r b
      using generateMust_returns_fatal [OF e] .
    have exact: "generateMust L n fn buf = Err e"
      if "(\<exists>tp. generateTypeParams L (TypeParams (FnType fn)) = Ok tp)
            \<and> (\<exists>rc. generateReceiver L (Recv fn) = Ok rc)
            \<and> (\<exists>ps. generateParams L (Params (FnType fn)) = Ok ps)"
      using that generateMust_returns_Err [OF e] by auto
    have visit: "visitFuncDecl L tag (generateMust L) file fn err b \<noteq> Ok r"
      if "findTag tag file fn = Ok (Some c) \<and> resolveName L tag c fn = Ok n" for r err b
      using that must [of b r] by (simp add: visitFuncDecl_def)
    have run: "walkCode L pkg tag (generateMust L) buf \<noteq> Ok r"
      if t: "findTag tag file fn = Ok (Some c) \<and> resolveName L tag c fn = Ok n"
        and m: "file \<in> set (Syntax pkg) \<and> FuncDeclD fn \<in> set (Decls file)" for r
    proof
      assume "walkCode L pkg tag (generateMust L) buf = Ok r"
      from walkCode_Ok_declText [OF this, of "file" "FuncDeclD fn"] m
      obtain t' where "declText L tag file (FuncDeclD fn) = Ok t'" by auto
      then obtain r' where "visitFuncDecl L tag (generateMust L) file fn None '''' = Ok r'"
        by (auto simp: declText_def andThen_Ok_iff)
      with visit [OF t] show False by simp
    qed
    from must exact visit run show ?thesis by blast
  qed
  from generateReturns_NoReturnValues_iff [of L rets]
    generateReturns_NoErrorReturn_iff [of L rets]
    generateReturns_UnknownFieldType_iff [of L rets] fatal
  show ?thesis by blast
qed

theorem generateReturns_failures_witness:
  "generateReturns exampleLib None = Err errNoReturnValues
   \<and> generateReturns exampleLib (Some []) = Err errNoReturnValues
   \<and> generateReturns exampleLib (Results (FnType Count)) = Err errNoErrorReturn
   \<and> generateReturns exampleLib bytesIntResults = Err errUnknownFieldType
   \<and> generateMust exampleLib ''MustCount'' Count '''' = Err errNoErrorReturn
   \<and> walkCode exampleLib countPackage ''@gen_must'' (generateMust exampleLib) ''''
       \<noteq> Ok (None, '''')
   \<and> generate exampleLib countPackage = Err errNoErrorReturn"
  using generateReturns_failures [of exampleLib "Results (FnType Count)" Count
      errNoErrorReturn "''MustCount''" "''''" "''@gen_must''" "fileOf Count bareComment"
      bareComment countPackage]
    returns_examples
  by simp

text \<open>
  The claim as the specification words it fails on \<^verbatim>\<open>([]byte, int)\<close>: the list is not
  empty and its last result is reconstructed as \<^verbatim>\<open>int\<close>, yet the failure is
  \<open>errUnknownFieldType\<close>, raised at the first result, and not \<open>errNoErrorReturn\<close>.
\<close>

theorem generateReturns_unreconstructed_counterexample:
  "generateReturns exampleLib bytesIntResults = Err errUnknownFieldType
   \<and> the bytesIntResults \<noteq> []
   \<and> generateType exampleLib (Type (last (the bytesIntResults))) = Ok ''int''"
  by code_simp

section \<open>Fields that declare several names\<close>

text \<open>
  With one name to a field the wrapper of \<^verbatim>\<open>Divide\<close> is the one the specification
  shows, before formatting.
\<close>

lemma Divide_separate_wrapper:
  "generate exampleLib \<lparr>PkgName = ''calc'', Syntax = [fileOf DivideSeparate bareComment]\<rparr>
     = Ok ''// Code generated - DO NOT EDIT.\<newline>// This file is auto generated by gen_must and any manual changes will be lost.\<newline>\<newline>package calc\<newline>\<newline>// MustDivide has the behavior of Divide, except it panics any error\<newline>func  MustDivide(a int,b int) (int) {\<newline>var0,err := Divide(a,b)\<newline>if err!=nil{panic(err)}\<newline>return var0}\<newline>\<newline>''"
  by code_simp

text \<open>
  Claim C1, on the code. For \<^verbatim>\<open>func Divide(a, b int) (int, error)\<close> with the bare marker
  as its first body comment, the parser delivers one parameter field with the names
  \<^verbatim>\<open>a\<close> and \<^verbatim>\<open>b\<close>; the parameter extractor reads the first name of a field only, so
  the generated wrapper declares the parameter \<^verbatim>\<open>a\<close> alone and calls
  \<^verbatim>\<open>Divide(a)\<close>: the parameter \<^verbatim>\<open>b\<close> is in neither place.
\<close>

theorem Divide_grouped_wrapper:
  "generateParams exampleLib (Params (FnType DivideGrouped)) = Ok (''a int'', ''a'')
   \<and> generate exampleLib \<lparr>PkgName = ''calc'', Syntax = [fileOf DivideGrouped bareComment]\<rparr>
     = Ok ''// Code generated - DO NOT EDIT.\<newline>// This file is auto generated by gen_must and any manual changes will be lost.\<newline>\<newline>package calc\<newline>\<newline>// MustDivide has the behavior of Divide, except it panics any error\<newline>func  MustDivide(a int) (int) {\<newline>var0,err := Divide(a)\<newline>if err!=nil{panic(err)}\<newline>return var0}\<newline>\<newline>''"
  by code_simp

text \<open>
  The results extractor makes one entry for every result field: when every type is
  reconstructed and the last text is \<^verbatim>\<open>error\<close>, it returns the texts of the fields and
  the variables \<^verbatim>\<open>var0\<close>, \<^verbatim>\<open>var1\<close>, ... with \<^verbatim>\<open>err\<close> last.
\<close>

lemma generateReturns_Ok:
  assumes "list_all2 (\<lambda>r t. generateType L (Type r) = Ok t) rs ts"
    and "rs \<noteq> []" and "last ts = ''error''"
  shows "generateReturns L (Some rs) =
           Ok (ts, map (\<lambda>k. ''var'' @ Itoa k) [0..<length rs - 1] @ [''err''])"
proof -
  from assms(1) have len: "length ts = length rs" by (simp add: list_all2_lengthD)
  with assms(2) have ne: "ts \<noteq> []" by auto
  then have lst: "ts ! (length ts - 1) = last ts" by (simp add: last_conv_nth)
  obtain m where m: "length rs = Suc m" using assms(2) by (cases rs) auto
  have upd: "(map (\<lambda>k. ''var'' @ Itoa k) [0..<length rs])
               [length (map (\<lambda>k. ''var'' @ Itoa k) [0..<length rs]) - 1 := ''err'']
             = map (\<lambda>k. ''var'' @ Itoa k) [0..<length rs - 1] @ [''err'']"
    using m by (simp add: list_update_append)
  from returnsLoop_Ok [OF assms(1), of 0 "[]" "[]"] assms(2,3) lst upd
  show ?thesis by (simp add: generateReturns_def)
qed

text \<open>
  Claim C5, on the code. \<^verbatim>\<open>func Split(s string) (a, b int, err error)\<close> has three
  results, the last of type \<^verbatim>\<open>error\<close>, in two result fields. The extractor makes one
  entry for a field, so the wrapper declares the single result \<^verbatim>\<open>int\<close> and not two,
  and its body assigns the three values of the call to \<^verbatim>\<open>var0,err\<close>.
\<close>

theorem Split_named_results_wrapper:
  "NumFields (Results (FnType SplitNamed)) = 3
   \<and> generateReturns exampleLib (Results (FnType SplitNamed))
       = Ok ([''int'', ''error''], [''var0'', ''err''])
   \<and> generateMust exampleLib ''MustSplit'' SplitNamed ''''
       = Ok (None, ''// MustSplit has the behavior of Split, except it panics any error\<newline>func  MustSplit(s string) (int) {\<newline>var0,err := Split(s)\<newline>if err!=nil{panic(err)}\<newline>return var0}\<newline>\<newline>'')"
  by code_simp

end
